theory Spec2Isabelle
  imports Complex_Main
begin

section \<open>Python values\<close>

text \<open>
  The facade is dynamically typed: \<open>insert\<close> looks at \<open>type(text) is list\<close>,
  \<open>batch_insert\<close> at \<open>isinstance(texts, list)\<close>, \<open>x is None\<close> and \<open>len\<close>, and several
  branches test truthiness (\<open>not text\<close>, \<open>metadata if metadata else None\<close>). The
  arguments are therefore values of one universe of Python objects. \<open>PUuid n\<close> is the
  \<open>uuid.UUID\<close> object produced by the \<open>n\<close>-th call of \<open>uuid.uuid4()\<close>; \<open>PFloat\<close> carries
  the exact value of a finite float (floats are stored and returned, never computed on).
\<close>

datatype pyval =
    PNone
  | PBool bool
  | PInt int
  | PFloat real
  | PStr string
  | PUuid nat
  | PList "pyval list"
  | PDict "(string \<times> pyval) list"

text \<open>Truthiness, as \<open>bool(x)\<close> gives it.\<close>

fun py_truthy :: "pyval \<Rightarrow> bool" where
  "py_truthy PNone = False"
| "py_truthy (PBool b) = b"
| "py_truthy (PInt i) = (i \<noteq> 0)"
| "py_truthy (PFloat r) = (r \<noteq> 0)"
| "py_truthy (PStr s) = (s \<noteq> [])"
| "py_truthy (PUuid n) = True"
| "py_truthy (PList xs) = (xs \<noteq> [])"
| "py_truthy (PDict kvs) = (kvs \<noteq> [])"

text \<open>\<open>type(x) is list\<close> and \<open>isinstance(x, list)\<close> (the universe has no subclass of list).\<close>

fun is_list :: "pyval \<Rightarrow> bool" where
  "is_list (PList xs) = True"
| "is_list v = False"

subsection \<open>Errors\<close>

text \<open>
  Every \<open>raise\<close> of the source is a \<open>ValueError\<close>; they differ in the message only. The
  implicit failures of Python (\<open>len\<close> of an object without length, an index out of range,
  an attribute of \<open>None\<close>) and the failures of the two collaborators are errors too.
\<close>

datatype value_error =
    TextContentNone          \<comment> \<open>"The text content cannot be None."\<close>
  | TextsNotNonEmptyList     \<comment> \<open>"The 'texts' parameter must be a non-empty list of strings."\<close>
  | TextIdsCount             \<comment> \<open>"The number of 'text_ids' must match the number of 'texts'."\<close>
  | MetadatasCount           \<comment> \<open>"The number of 'metadatas' must match the number of 'texts'."\<close>
  | NoEntryFound pyval       \<comment> \<open>"No entry found with ID: ..."\<close>
  | TextIdNone               \<comment> \<open>"Must use valid text_id, text_id should not be None"\<close>

datatype error =
    ValueError value_error
  | TypeError
  | IndexError
  | AttributeError
  | EmbedderFailure
  | StoreFailure

text \<open>The error kinds of the specification, by raise site.\<close>

datatype error_kind = ValidationError | NotFoundError | CollaboratorError | OtherError

fun kind :: "error \<Rightarrow> error_kind" where
  "kind (ValueError (NoEntryFound i)) = NotFoundError"
| "kind (ValueError m) = ValidationError"
| "kind EmbedderFailure = CollaboratorError"
| "kind StoreFailure = CollaboratorError"
| "kind e = OtherError"

text \<open>\<open>len(x)\<close>: lists, strings and dicts have a length, the other values raise TypeError.\<close>

fun py_len :: "pyval \<Rightarrow> error + nat" where
  "py_len (PList xs) = Inr (length xs)"
| "py_len (PStr s) = Inr (length s)"
| "py_len (PDict kvs) = Inr (length kvs)"
| "py_len v = Inl TypeError"

text \<open>Iteration (\<open>for x in v\<close>): a string yields its characters, a dict its keys.\<close>

fun py_iter :: "pyval \<Rightarrow> error + pyval list" where
  "py_iter (PList xs) = Inr xs"
| "py_iter (PStr s) = Inr (map (\<lambda>c. PStr [c]) s)"
| "py_iter (PDict kvs) = Inr (map (\<lambda>kv. PStr (fst kv)) kvs)"
| "py_iter v = Inl TypeError"

text \<open>\<open>xs[i]\<close> on a list, for an index that is not negative.\<close>

definition nth_err :: "'a list \<Rightarrow> nat \<Rightarrow> error + 'a" where
  "nth_err xs i = (if i < length xs then Inr (xs ! i) else Inl IndexError)"

subsection \<open>uuid\<close>

text \<open>
  \<open>str(u)\<close> of a UUID object is its canonical text: 32 lower-case hexadecimal digits in
  groups of 8-4-4-4-12. The \<open>n\<close>-th draw of \<open>uuid.uuid4()\<close> is identified with the number
  \<open>n\<close>, so draws are pairwise distinct: this is the idealisation "universally unique".
\<close>

definition hex_digit :: "nat \<Rightarrow> char" where
  "hex_digit d = ''0123456789abcdef'' ! (d mod 16)"

fun hex_digits :: "nat \<Rightarrow> nat \<Rightarrow> string" where
  "hex_digits 0 v = []"
| "hex_digits (Suc w) v = hex_digits w (v div 16) @ [hex_digit v]"

definition uuid_str :: "nat \<Rightarrow> string" where
  "uuid_str n =
     (let h = hex_digits 32 n
      in take 8 h @ ''-'' @ take 4 (drop 8 h) @ ''-'' @ take 4 (drop 12 h) @ ''-''
         @ take 4 (drop 16 h) @ ''-'' @ drop 20 h)"

section \<open>The Vector Collection (collaborator)\<close>

text \<open>
  One stored record: the embedding the caller of \<open>upsert\<close> supplied (\<open>PNone\<close> when the call
  supplied none), the document and the metadata (\<open>PNone\<close> when absent).
\<close>

record entry =
  e_embedding :: pyval
  e_document :: pyval
  e_metadata :: pyval

text \<open>The keyword arguments of \<open>collection.upsert\<close>; a keyword left out or \<open>None\<close> is \<open>PNone\<close>.\<close>

record upsert_args =
  u_ids :: pyval
  u_embeddings :: pyval
  u_documents :: pyval
  u_metadatas :: pyval

text \<open>
  The \<open>query_params\<close> dict of \<open>query\<close>; the key \<open>"where"\<close> is present only when the
  caller's filter is truthy.
\<close>

record query_params =
  query_embeddings :: pyval
  n_results :: pyval
  q_where :: "pyval option"

text \<open>
  The result dicts of \<open>collection.get\<close> and \<open>collection.query\<close>. \<open>metadatas\<close> is \<open>None\<close>
  when the key is missing or its value is \<open>None\<close>.
\<close>

record get_result =
  g_documents :: "pyval list"
  g_metadatas :: "pyval list option"

record query_result =
  r_ids :: "pyval list list"
  r_documents :: "pyval list list"
  r_metadatas :: "pyval list list option"
  r_distances :: "pyval list list"

text \<open>The requests sent to the collection, in order: the trace of store calls.\<close>

datatype request =
    UpsertReq upsert_args
  | GetReq "pyval list"
  | DeleteReq "pyval list"
  | QueryReq query_params

record collection_state =
  c_entries :: "pyval \<rightharpoonup> entry"
  c_requests :: "request list"

text \<open>
  Modelled from the spec: the Vector Collection Store is the third-party library
  \<open>chromadb\<close>, whose code is not part of this repository. The specification (section 6)
  gives its contract: \<open>upsert(ids, embeddings, documents, metadatas?)\<close> has "replaces-by-id
  semantics; accepts parallel ordered sequences of equal length; metadatas may be
  entirely absent"; \<open>get(ids)\<close> returns \<open>{documents, metadatas?}\<close>; \<open>delete(ids)\<close> returns
  nothing and does not fail on an id that is not stored.

  So the contract grants an upsert whose ids, embeddings and documents are lists of one
  length, with every document present, and whose metadatas is absent or a list of that
  length (\<open>in_contract\<close>): such a call replaces by id, an absent metadatas standing for
  one \<open>None\<close> per id. What the store does with any other upsert (no embeddings, an absent
  document, columns of different lengths) the specification does not say. That answer
  is a parameter of the model, \<open>off_contract_upsert\<close>: the new entries, or \<open>None\<close> when
  the store refuses the call. Two such stores are named: \<open>lenient_upsert\<close> replaces by id
  whenever the columns present have one length, and \<open>strict_upsert\<close> refuses.
\<close>

definition opt_column :: "pyval \<Rightarrow> nat \<Rightarrow> pyval list option" where
  "opt_column v n =
     (case v of
        PNone \<Rightarrow> Some (replicate n PNone)
      | PList xs \<Rightarrow> if length xs = n then Some xs else None
      | _ \<Rightarrow> None)"

definition put_entry :: "pyval \<times> pyval \<times> pyval \<times> pyval \<Rightarrow> (pyval \<rightharpoonup> entry) \<Rightarrow> (pyval \<rightharpoonup> entry)" where
  "put_entry row m =
     (case row of (i, e, d, md) \<Rightarrow>
        m(i \<mapsto> \<lparr>e_embedding = e, e_document = d, e_metadata = md\<rparr>))"

text \<open>The rows of an upsert whose columns, as far as present, are lists of one length.\<close>

definition upsert_rows :: "upsert_args \<Rightarrow> (pyval \<times> pyval \<times> pyval \<times> pyval) list option" where
  "upsert_rows a =
     (case (u_ids a, u_documents a) of
        (PList ids, PList docs) \<Rightarrow>
          (case (opt_column (u_embeddings a) (length ids), opt_column (u_metadatas a) (length ids)) of
             (Some embs, Some mds) \<Rightarrow>
               if length docs = length ids
               then Some (zip ids (zip embs (zip docs mds)))
               else None
           | _ \<Rightarrow> None)
      | _ \<Rightarrow> None)"

definition in_contract :: "upsert_args \<Rightarrow> bool" where
  "in_contract a =
     (upsert_rows a \<noteq> None \<and> is_list (u_embeddings a) \<and>
      (case u_documents a of PList docs \<Rightarrow> \<not> list_ex (\<lambda>d. d = PNone) docs | _ \<Rightarrow> False))"

definition lenient_upsert :: "upsert_args \<Rightarrow> (pyval \<rightharpoonup> entry) \<Rightarrow> (pyval \<rightharpoonup> entry) option" where
  "lenient_upsert a m =
     (case upsert_rows a of
        Some rows \<Rightarrow> Some (fold put_entry rows m)
      | None \<Rightarrow> None)"

definition strict_upsert :: "upsert_args \<Rightarrow> (pyval \<rightharpoonup> entry) \<Rightarrow> (pyval \<rightharpoonup> entry) option" where
  "strict_upsert a m = None"

definition apply_upsert ::
  "(upsert_args \<Rightarrow> (pyval \<rightharpoonup> entry) \<Rightarrow> (pyval \<rightharpoonup> entry) option) \<Rightarrow>
   upsert_args \<Rightarrow> (pyval \<rightharpoonup> entry) \<Rightarrow> (pyval \<rightharpoonup> entry) option" where
  "apply_upsert off_contract a m =
     (if in_contract a
      then (case upsert_rows a of
              Some rows \<Rightarrow> Some (fold put_entry rows m)
            | None \<Rightarrow> None)
      else off_contract a m)"

definition apply_get :: "pyval list \<Rightarrow> (pyval \<rightharpoonup> entry) \<Rightarrow> get_result" where
  "apply_get ids m =
     (let found = List.map_filter m ids
      in \<lparr>g_documents = map e_document found, g_metadatas = Some (map e_metadata found)\<rparr>)"

definition apply_delete :: "pyval list \<Rightarrow> (pyval \<rightharpoonup> entry) \<Rightarrow> (pyval \<rightharpoonup> entry)" where
  "apply_delete ids m = fold (\<lambda>i m'. m'(i := None)) ids m"

section \<open>The facade\<close>

text \<open>
  \<open>self\<close>: the Embedder (\<open>self.embedding_model.encode(x).tolist()\<close>, a collaborator and so a
  parameter, which may fail), the store behind \<open>self.client\<close> as far as it is a parameter
  (its answer to an upsert outside the contract), the active collection (\<open>None\<close> until
  \<open>set_collection\<close> ran) and the number of UUIDs drawn so far. Every method returns its
  result, or the error it raised, together with the state it left behind. \<open>print\<close> is
  not modelled.
\<close>

record lsdb =
  embedding_model :: "pyval \<Rightarrow> error + pyval"
  off_contract_upsert :: "upsert_args \<Rightarrow> (pyval \<rightharpoonup> entry) \<Rightarrow> (pyval \<rightharpoonup> entry) option"
  collection :: "collection_state option"
  uuid_draws :: nat

definition embed_text :: "lsdb \<Rightarrow> pyval \<Rightarrow> error + pyval" where
  "embed_text self text = embedding_model self text"

text \<open>\<open>batch_size\<close> and \<open>show_progress_bar\<close> do not change what \<open>encode\<close> returns.\<close>

definition embed_texts :: "lsdb \<Rightarrow> pyval \<Rightarrow> error + pyval" where
  "embed_texts self texts = embedding_model self texts"

definition uuid4 :: "lsdb \<Rightarrow> pyval \<times> lsdb" where
  "uuid4 self = (PUuid (uuid_draws self), self\<lparr>uuid_draws := Suc (uuid_draws self)\<rparr>)"

text \<open>\<open>str(x)\<close>; the source applies it to UUID objects only.\<close>

fun py_str :: "pyval \<Rightarrow> pyval" where
  "py_str (PUuid n) = PStr (uuid_str n)"
| "py_str v = v"

text \<open>
  The calls \<open>self.collection.upsert(...)\<close>, \<open>.get(ids=...)\<close> and \<open>.delete(ids=...)\<close>: the
  attribute of \<open>None\<close> raises AttributeError; otherwise the request is recorded and served.
\<close>

definition store_upsert :: "lsdb \<Rightarrow> upsert_args \<Rightarrow> (error + unit) \<times> lsdb" where
  "store_upsert self a =
     (case collection self of
        None \<Rightarrow> (Inl AttributeError, self)
      | Some c \<Rightarrow>
          (let c1 = c\<lparr>c_requests := c_requests c @ [UpsertReq a]\<rparr>
           in case apply_upsert (off_contract_upsert self) a (c_entries c) of
                None \<Rightarrow> (Inl StoreFailure, self\<lparr>collection := Some c1\<rparr>)
              | Some m \<Rightarrow> (Inr (), self\<lparr>collection := Some (c1\<lparr>c_entries := m\<rparr>)\<rparr>)))"

definition store_get :: "lsdb \<Rightarrow> pyval list \<Rightarrow> (error + get_result) \<times> lsdb" where
  "store_get self ids =
     (case collection self of
        None \<Rightarrow> (Inl AttributeError, self)
      | Some c \<Rightarrow>
          (Inr (apply_get ids (c_entries c)),
           self\<lparr>collection := Some (c\<lparr>c_requests := c_requests c @ [GetReq ids]\<rparr>)\<rparr>))"

definition store_delete :: "lsdb \<Rightarrow> pyval list \<Rightarrow> (error + unit) \<times> lsdb" where
  "store_delete self ids =
     (case collection self of
        None \<Rightarrow> (Inl AttributeError, self)
      | Some c \<Rightarrow>
          (Inr (),
           self\<lparr>collection := Some (c\<lparr>c_entries := apply_delete ids (c_entries c),
                                      c_requests := c_requests c @ [DeleteReq ids]\<rparr>)\<rparr>))"

subsection \<open>batch_insert\<close>

text \<open>
  Lines 85-90: \<open>for item in text_ids: if item is None: text_ids[i] = uuid.uuid4()\<close>. The
  slot receives the UUID object itself (there is no \<open>str\<close> here).
\<close>

fun fill_ids :: "pyval list \<Rightarrow> lsdb \<Rightarrow> pyval list \<times> lsdb" where
  "fill_ids [] self = ([], self)"
| "fill_ids (item # items) self =
     (if item = PNone
      then (case uuid4 self of (u, self1) \<Rightarrow>
              (case fill_ids items self1 of (rest, self2) \<Rightarrow> (u # rest, self2)))
      else (case fill_ids items self of (rest, self2) \<Rightarrow> (item # rest, self2)))"

text \<open>Line 80: \<open>[str(uuid.uuid4()) for _ in texts]\<close>.\<close>

fun fresh_ids :: "'a list \<Rightarrow> lsdb \<Rightarrow> pyval list \<times> lsdb" where
  "fresh_ids [] self = ([], self)"
| "fresh_ids (t # ts) self =
     (case uuid4 self of (u, self1) \<Rightarrow>
        (case fresh_ids ts self1 of (rest, self2) \<Rightarrow> (py_str u # rest, self2)))"

text \<open>
  Lines 79-90. When some element is \<open>None\<close> the value is a list (the characters of a
  string and the keys of a dict are strings), so the item assignment of the other
  branch is never reached; it is a TypeError there.
\<close>

definition resolve_ids :: "lsdb \<Rightarrow> pyval list \<Rightarrow> pyval \<Rightarrow> (error + pyval) \<times> lsdb" where
  "resolve_ids self texts text_ids =
     (if text_ids = PNone
      then (case fresh_ids texts self of (ids, self1) \<Rightarrow> (Inr (PList ids), self1))
      else
        (case py_len text_ids of
           Inl e \<Rightarrow> (Inl e, self)
         | Inr n \<Rightarrow>
             if n \<noteq> length texts then (Inl (ValueError TextIdsCount), self)
             else
               (case py_iter text_ids of
                  Inl e \<Rightarrow> (Inl e, self)
                | Inr items \<Rightarrow>
                    if list_ex (\<lambda>x. x = PNone) items
                    then (case text_ids of
                            PList ids \<Rightarrow>
                              (case fill_ids ids self of (ids1, self1) \<Rightarrow> (Inr (PList ids1), self1))
                          | _ \<Rightarrow> (Inl TypeError, self))
                    else (Inr text_ids, self))))"

text \<open>Lines 96-99.\<close>

definition resolve_metadatas :: "pyval list \<Rightarrow> pyval \<Rightarrow> error + pyval" where
  "resolve_metadatas texts metadatas =
     (if metadatas = PNone then Inr (PList (replicate (length texts) PNone))
      else
        (case py_len metadatas of
           Inl e \<Rightarrow> Inl e
         | Inr n \<Rightarrow> if n \<noteq> length texts then Inl (ValueError MetadatasCount) else Inr metadatas))"

definition batch_insert :: "lsdb \<Rightarrow> pyval \<Rightarrow> pyval \<Rightarrow> pyval \<Rightarrow> (error + pyval) \<times> lsdb" where
  "batch_insert self texts metadatas text_ids =
     (case texts of
        PList ts \<Rightarrow>
          if ts = [] then (Inl (ValueError TextsNotNonEmptyList), self)
          else
            (case resolve_ids self ts text_ids of
               (Inl e, self1) \<Rightarrow> (Inl e, self1)
             | (Inr ids, self1) \<Rightarrow>
                 (case embed_texts self1 texts of
                    Inl e \<Rightarrow> (Inl e, self1)
                  | Inr embeddings \<Rightarrow>
                      (case resolve_metadatas ts metadatas of
                         Inl e \<Rightarrow> (Inl e, self1)
                       | Inr mds \<Rightarrow>
                           (case store_upsert self1
                                   \<lparr>u_ids = ids, u_embeddings = embeddings,
                                    u_documents = texts, u_metadatas = mds\<rparr> of
                              (Inl e, self2) \<Rightarrow> (Inl e, self2)
                            | (Inr u, self2) \<Rightarrow> (Inr ids, self2)))))
      | _ \<Rightarrow> (Inl (ValueError TextsNotNonEmptyList), self))"

subsection \<open>insert\<close>

definition insert_text :: "lsdb \<Rightarrow> pyval \<Rightarrow> pyval \<Rightarrow> pyval \<Rightarrow> (error + pyval) \<times> lsdb" where
  "insert_text self text metadata text_id =
     (if is_list text \<and> is_list metadata \<and> is_list text_id
      then batch_insert self text metadata text_id
      else
        (case (if text_id = PNone
               then (case uuid4 self of (u, self1) \<Rightarrow> (py_str u, self1))
               else (text_id, self)) of
           (text_id1, self1) \<Rightarrow>
             if \<not> py_truthy text then (Inl (ValueError TextContentNone), self1)
             else
               (case embed_text self1 text of
                  Inl e \<Rightarrow> (Inl e, self1)
                | Inr embedding \<Rightarrow>
                    (case store_upsert self1
                            \<lparr>u_ids = PList [text_id1], u_embeddings = PList [embedding],
                             u_documents = PList [text],
                             u_metadatas = (if py_truthy metadata then PList [metadata] else PNone)\<rparr> of
                       (Inl e, self2) \<Rightarrow> (Inl e, self2)
                     | (Inr u, self2) \<Rightarrow> (Inr text_id1, self2)))))"

subsection \<open>query\<close>

text \<open>
  One item of the flattened result. The dict literal is evaluated key by key, so the
  first index out of range decides the error.
\<close>

definition result_item :: "query_result \<Rightarrow> nat \<Rightarrow> error + pyval" where
  "result_item results i =
     (case nth_err (r_ids results) 0 of Inl e \<Rightarrow> Inl e | Inr ids0 \<Rightarrow>
      case nth_err ids0 i of Inl e \<Rightarrow> Inl e | Inr rid \<Rightarrow>
      case nth_err (r_documents results) 0 of Inl e \<Rightarrow> Inl e | Inr docs0 \<Rightarrow>
      case nth_err docs0 i of Inl e \<Rightarrow> Inl e | Inr doc \<Rightarrow>
      case (case r_metadatas results of
              None \<Rightarrow> Inr PNone
            | Some mdss \<Rightarrow>
                if mdss = [] then Inr PNone
                else (case nth_err mdss 0 of Inl e \<Rightarrow> Inl e | Inr mds0 \<Rightarrow> nth_err mds0 i))
        of Inl e \<Rightarrow> Inl e | Inr md \<Rightarrow>
      case nth_err (r_distances results) 0 of Inl e \<Rightarrow> Inl e | Inr dists0 \<Rightarrow>
      case nth_err dists0 i of Inl e \<Rightarrow> Inl e | Inr dval \<Rightarrow>
        Inr (PDict [(''id'', rid), (''text'', doc), (''metadata'', md), (''distance'', dval)]))"

text \<open>The loop \<open>for i in range(...)\<close>, appending to \<open>flattened_results\<close>.\<close>

fun flatten_loop :: "query_result \<Rightarrow> nat list \<Rightarrow> pyval list \<Rightarrow> error + pyval list" where
  "flatten_loop results [] flattened = Inr flattened"
| "flatten_loop results (i # is) flattened =
     (case result_item results i of
        Inl e \<Rightarrow> Inl e
      | Inr item \<Rightarrow> flatten_loop results is (flattened @ [item]))"

definition flatten_results :: "query_result \<Rightarrow> error + pyval list" where
  "flatten_results results =
     (case nth_err (r_ids results) 0 of
        Inl e \<Rightarrow> Inl e
      | Inr ids0 \<Rightarrow> flatten_loop results [0..<length ids0] [])"

text \<open>
  The nearest-neighbour search is the store's own: \<open>search\<close> is what
  \<open>collection.query(**query_params)\<close> answers on the stored entries.
\<close>

definition query ::
  "(query_params \<Rightarrow> (pyval \<rightharpoonup> entry) \<Rightarrow> error + query_result) \<Rightarrow>
   lsdb \<Rightarrow> pyval \<Rightarrow> pyval \<Rightarrow> pyval \<Rightarrow> (error + pyval) \<times> lsdb" where
  "query search self query_text top_k wh =
     (case embed_text self query_text of
        Inl e \<Rightarrow> (Inl e, self)
      | Inr embedding \<Rightarrow>
          (let query_params = \<lparr>query_embeddings = PList [embedding], n_results = top_k,
                               q_where = (if py_truthy wh then Some wh else None)\<rparr>
           in case collection self of
                None \<Rightarrow> (Inl AttributeError, self)
              | Some c \<Rightarrow>
                  (let self1 = self\<lparr>collection :=
                                 Some (c\<lparr>c_requests := c_requests c @ [QueryReq query_params]\<rparr>)\<rparr>
                   in case search query_params (c_entries c) of
                        Inl e \<Rightarrow> (Inl e, self1)
                      | Inr results \<Rightarrow>
                          (case flatten_results results of
                             Inl e \<Rightarrow> (Inl e, self1)
                           | Inr flattened \<Rightarrow> (Inr (PList flattened), self1)))))"

subsection \<open>get, delete, update\<close>

definition get :: "lsdb \<Rightarrow> pyval \<Rightarrow> (error + pyval) \<times> lsdb" where
  "get self text_id =
     (case store_get self [text_id] of
        (Inl e, self1) \<Rightarrow> (Inl e, self1)
      | (Inr results, self1) \<Rightarrow>
          (case g_documents results of
             [] \<Rightarrow> (Inl (ValueError (NoEntryFound text_id)), self1)
           | doc # docs \<Rightarrow>
               (Inr (PDict [(''id'', text_id), (''text'', doc),
                            (''metadata'', (case g_metadatas results of
                                              Some (md # mds) \<Rightarrow> md
                                            | _ \<Rightarrow> PNone))]),
                self1)))"

definition delete :: "lsdb \<Rightarrow> pyval \<Rightarrow> (error + pyval) \<times> lsdb" where
  "delete self text_id =
     (case store_delete self [text_id] of
        (Inl e, self1) \<Rightarrow> (Inl e, self1)
      | (Inr u, self1) \<Rightarrow> (Inr PNone, self1))"

definition update :: "lsdb \<Rightarrow> pyval \<Rightarrow> pyval \<Rightarrow> pyval \<Rightarrow> (error + pyval) \<times> lsdb" where
  "update self text_id text metadata =
     (if text_id = PNone then (Inl (ValueError TextIdNone), self)
      else
        (case store_get self [text_id] of
           (Inl e, self1) \<Rightarrow> (Inl e, self1)
         | (Inr results, self1) \<Rightarrow>
             if g_documents results = [] then (Inl (ValueError (NoEntryFound text_id)), self1)
             else
               (case store_upsert self1
                       \<lparr>u_ids = PList [text_id], u_embeddings = PNone,
                        u_documents = PList [text],
                        u_metadatas = (if py_truthy metadata then PList [metadata] else PNone)\<rparr> of
                  (Inl e, self2) \<Rightarrow> (Inl e, self2)
                | (Inr u, self2) \<Rightarrow> (Inr PNone, self2))))"

subsection \<open>Shape of a store answer\<close>

text \<open>
  For stating what \<open>query\<close> returns: the first row of a nested list (empty when there is
  none), and the answers on which no index of the flattening loop is out of range: there
  is a first row of ids, and the first rows of documents, of distances and, when a
  metadata array is returned, of metadatas are at least as long.
\<close>

definition first_row :: "'a list list \<Rightarrow> 'a list" where
  "first_row rows = (case rows of [] \<Rightarrow> [] | r # rs \<Rightarrow> r)"

definition rows_cover :: "query_result \<Rightarrow> bool" where
  "rows_cover results =
     (r_ids results \<noteq> []
      \<and> length (first_row (r_ids results)) \<le> length (first_row (r_documents results))
      \<and> length (first_row (r_ids results)) \<le> length (first_row (r_distances results))
      \<and> (case r_metadatas results of
            Some (mds0 # mds_rest) \<Rightarrow> length (first_row (r_ids results)) \<le> length mds0
          | _ \<Rightarrow> True))"

section \<open>Example states\<close>

text \<open>
  A stand-in Embedder for the examples: a string is embedded as the one-component vector
  holding its length, a list of strings as the list of those vectors; anything else makes
  the Embedder fail.
\<close>

fun demo_vector :: "pyval \<Rightarrow> pyval" where
  "demo_vector (PStr s) = PList [PFloat (real (length s))]"
| "demo_vector v = PList [PFloat 0]"

fun demo_encode :: "pyval \<Rightarrow> error + pyval" where
  "demo_encode (PStr s) = Inr (demo_vector (PStr s))"
| "demo_encode (PList xs) = Inr (PList (map demo_vector xs))"
| "demo_encode v = Inl EmbedderFailure"

text \<open>
  A facade on an empty active collection, and one holding the record \<open>"a"\<close>; both over
  the lenient store.
\<close>

definition empty_db :: lsdb where
  "empty_db = \<lparr>embedding_model = demo_encode, off_contract_upsert = lenient_upsert,
               collection = Some \<lparr>c_entries = Map.empty, c_requests = []\<rparr>,
               uuid_draws = 0\<rparr>"

definition alice_entry :: entry where
  "alice_entry = \<lparr>e_embedding = PList [PFloat 5], e_document = PStr ''hello'',
                  e_metadata = PDict [(''name'', PStr ''Alice'')]\<rparr>"

definition alice_db :: lsdb where
  "alice_db = \<lparr>embedding_model = demo_encode, off_contract_upsert = lenient_upsert,
               collection = Some \<lparr>c_entries = [PStr ''a'' \<mapsto> alice_entry], c_requests = []\<rparr>,
               uuid_draws = 0\<rparr>"

text \<open>
  The record \<open>"a"\<close> again, over the store that refuses every upsert outside the contract,
  and with an Embedder that always fails.
\<close>

definition strict_alice_db :: lsdb where
  "strict_alice_db = \<lparr>embedding_model = demo_encode, off_contract_upsert = strict_upsert,
               collection = Some \<lparr>c_entries = [PStr ''a'' \<mapsto> alice_entry], c_requests = []\<rparr>,
               uuid_draws = 0\<rparr>"

definition failing_encode :: "pyval \<Rightarrow> error + pyval" where
  "failing_encode v = Inl EmbedderFailure"

definition offline_db :: lsdb where
  "offline_db = \<lparr>embedding_model = failing_encode, off_contract_upsert = lenient_upsert,
               collection = Some \<lparr>c_entries = [PStr ''a'' \<mapsto> alice_entry], c_requests = []\<rparr>,
               uuid_draws = 0\<rparr>"

text \<open>
  A stand-in search that answers every query with one match, the record \<open>"a"\<close>, whose
  metadata slot is \<open>None\<close> (as for a record stored without metadata).
\<close>

definition one_match :: query_result where
  "one_match = \<lparr>r_ids = [ [PStr ''a''] ], r_documents = [ [PStr ''hello''] ],
                r_metadatas = Some [ [PNone] ], r_distances = [ [PFloat (1/2)] ]\<rparr>"

definition demo_search :: "query_params \<Rightarrow> (pyval \<rightharpoonup> entry) \<Rightarrow> error + query_result" where
  "demo_search qp m = Inr one_match"

text \<open>A store answer with two matches and no metadata array.\<close>

definition two_matches :: query_result where
  "two_matches = \<lparr>r_ids = [ [PStr ''a'', PStr ''b''] ],
                  r_documents = [ [PStr ''hello'', PStr ''bye''] ],
                  r_metadatas = None,
                  r_distances = [ [PFloat (1/4), PFloat (1/2)] ]\<rparr>"

definition pair_search :: "query_params \<Rightarrow> (pyval \<rightharpoonup> entry) \<Rightarrow> error + query_result" where
  "pair_search qp m = Inr two_matches"

text \<open>A store answer whose row of documents is shorter than its row of ids.\<close>

definition short_match :: query_result where
  "short_match = \<lparr>r_ids = [ [PStr ''a'', PStr ''b''] ],
                  r_documents = [ [PStr ''hello''] ],
                  r_metadatas = None,
                  r_distances = [ [PFloat (1/4), PFloat (1/2)] ]\<rparr>"

definition short_search :: "query_params \<Rightarrow> (pyval \<rightharpoonup> entry) \<Rightarrow> error + query_result" where
  "short_search qp m = Inr short_match"

section \<open>The facade on an active collection\<close>

text \<open>What each store call and each method does when a collection is active.\<close>

lemma store_get_active:
  "collection self = Some c \<Longrightarrow>
   store_get self ids =
     (Inr (apply_get ids (c_entries c)),
      self\<lparr>collection := Some (c\<lparr>c_requests := c_requests c @ [GetReq ids]\<rparr>)\<rparr>)"
  by (simp add: store_get_def)

lemma apply_get_single:
  "apply_get [i] m =
     (case m i of None \<Rightarrow> \<lparr>g_documents = [], g_metadatas = Some []\<rparr>
      | Some e \<Rightarrow> \<lparr>g_documents = [e_document e], g_metadatas = Some [e_metadata e]\<rparr>)"
  by (simp add: apply_get_def List.map_filter_def split: option.splits)

lemma get_active:
  "collection self = Some c \<Longrightarrow>
   get self i =
     ((case c_entries c i of
         None \<Rightarrow> Inl (ValueError (NoEntryFound i))
       | Some e \<Rightarrow> Inr (PDict [(''id'', i), (''text'', e_document e), (''metadata'', e_metadata e)])),
      self\<lparr>collection := Some (c\<lparr>c_requests := c_requests c @ [GetReq [i] ]\<rparr>)\<rparr>)"
  by (simp add: get_def store_get_active apply_get_single split: option.splits)

lemma upsert_rows_single:
  "upsert_rows \<lparr>u_ids = PList [i], u_embeddings = embs, u_documents = PList [d],
                u_metadatas = (if py_truthy md then PList [md] else PNone)\<rparr> =
     (case opt_column embs 1 of
        Some [e] \<Rightarrow> Some [(i, e, d, if py_truthy md then md else PNone)]
      | _ \<Rightarrow> None)"
  by (auto simp add: upsert_rows_def opt_column_def split: pyval.splits list.splits option.splits)

lemma apply_upsert_with_embedding:
  "d \<noteq> PNone \<Longrightarrow>
   apply_upsert off_contract
     \<lparr>u_ids = PList [i], u_embeddings = PList [e], u_documents = PList [d],
      u_metadatas = (if py_truthy md then PList [md] else PNone)\<rparr> m =
     Some (m(i \<mapsto> \<lparr>e_embedding = e, e_document = d,
                     e_metadata = (if py_truthy md then md else PNone)\<rparr>))"
  by (simp add: apply_upsert_def in_contract_def upsert_rows_single opt_column_def put_entry_def)

lemma apply_upsert_without_embedding:
  "apply_upsert off_contract
     \<lparr>u_ids = PList [i], u_embeddings = PNone, u_documents = PList [d],
      u_metadatas = (if py_truthy md then PList [md] else PNone)\<rparr> m =
   off_contract
     \<lparr>u_ids = PList [i], u_embeddings = PNone, u_documents = PList [d],
      u_metadatas = (if py_truthy md then PList [md] else PNone)\<rparr> m"
  by (simp add: apply_upsert_def in_contract_def)

lemma lenient_upsert_without_embedding:
  "lenient_upsert
     \<lparr>u_ids = PList [i], u_embeddings = PNone, u_documents = PList [d],
      u_metadatas = (if py_truthy md then PList [md] else PNone)\<rparr> m =
     Some (m(i \<mapsto> \<lparr>e_embedding = PNone, e_document = d,
                     e_metadata = (if py_truthy md then md else PNone)\<rparr>))"
  by (simp add: lenient_upsert_def upsert_rows_single opt_column_def put_entry_def)

lemma insert_single:
  assumes "\<not> (is_list text \<and> is_list metadata \<and> is_list text_id)"
    and "py_truthy text"
    and "embedding_model self text = Inr emb"
    and "collection self = Some c"
  shows "insert_text self text metadata text_id =
     (Inr (if text_id = PNone then PStr (uuid_str (uuid_draws self)) else text_id),
      self\<lparr>collection := Some
             \<lparr>c_entries = (c_entries c)
                 ((if text_id = PNone then PStr (uuid_str (uuid_draws self)) else text_id) \<mapsto>
                    \<lparr>e_embedding = emb, e_document = text,
                     e_metadata = (if py_truthy metadata then metadata else PNone)\<rparr>),
              c_requests = c_requests c @
                 [UpsertReq \<lparr>u_ids = PList [if text_id = PNone then PStr (uuid_str (uuid_draws self)) else text_id],
                             u_embeddings = PList [emb], u_documents = PList [text],
                             u_metadatas = (if py_truthy metadata then PList [metadata] else PNone)\<rparr>]\<rparr>,
           uuid_draws := (if text_id = PNone then Suc (uuid_draws self) else uuid_draws self)\<rparr>)"
proof -
  have single: "(is_list text \<and> is_list metadata \<and> is_list text_id) = False"
    using assms(1) by simp
  have present: "text \<noteq> PNone"
    using assms(2) by auto
  show ?thesis
    unfolding insert_text_def single
    using assms(2-4) present
    by (simp add: uuid4_def embed_text_def store_upsert_def apply_upsert_with_embedding)
qed

lemma update_on_existing:
  assumes "text_id \<noteq> PNone"
    and "collection self = Some c"
    and "c_entries c text_id = Some e"
  shows "update self text_id text metadata =
     (case off_contract_upsert self
             \<lparr>u_ids = PList [text_id], u_embeddings = PNone, u_documents = PList [text],
              u_metadatas = (if py_truthy metadata then PList [metadata] else PNone)\<rparr>
             (c_entries c) of
        None \<Rightarrow>
          (Inl StoreFailure,
           self\<lparr>collection := Some
             \<lparr>c_entries = c_entries c,
              c_requests = c_requests c @
                 [GetReq [text_id],
                  UpsertReq \<lparr>u_ids = PList [text_id],
                             u_embeddings = PNone, u_documents = PList [text],
                             u_metadatas = (if py_truthy metadata then PList [metadata] else PNone)\<rparr>]\<rparr>\<rparr>)
      | Some m \<Rightarrow>
          (Inr PNone,
           self\<lparr>collection := Some
             \<lparr>c_entries = m,
              c_requests = c_requests c @
                 [GetReq [text_id],
                  UpsertReq \<lparr>u_ids = PList [text_id],
                             u_embeddings = PNone, u_documents = PList [text],
                             u_metadatas = (if py_truthy metadata then PList [metadata] else PNone)\<rparr>]\<rparr>\<rparr>))"
  using assms
  by (simp add: update_def store_get_active apply_get_single store_upsert_def
        apply_upsert_without_embedding split: option.splits)

lemma update_existing:
  assumes "text_id \<noteq> PNone"
    and "collection self = Some c"
    and "c_entries c text_id = Some e"
    and "off_contract_upsert self = lenient_upsert"
  shows "update self text_id text metadata =
     (Inr PNone,
      self\<lparr>collection := Some
             \<lparr>c_entries = (c_entries c)
                 (text_id \<mapsto> \<lparr>e_embedding = PNone, e_document = text,
                     e_metadata = (if py_truthy metadata then metadata else PNone)\<rparr>),
              c_requests = c_requests c @
                 [GetReq [text_id],
                  UpsertReq \<lparr>u_ids = PList [text_id],
                             u_embeddings = PNone, u_documents = PList [text],
                             u_metadatas = (if py_truthy metadata then PList [metadata] else PNone)\<rparr>]\<rparr>\<rparr>)"
  using assms
  by (simp add: update_on_existing lenient_upsert_without_embedding)

lemma update_refused:
  assumes "text_id \<noteq> PNone"
    and "collection self = Some c"
    and "c_entries c text_id = Some e"
    and "off_contract_upsert self = strict_upsert"
  shows "update self text_id text metadata =
     (Inl StoreFailure,
      self\<lparr>collection := Some
             \<lparr>c_entries = c_entries c,
              c_requests = c_requests c @
                 [GetReq [text_id],
                  UpsertReq \<lparr>u_ids = PList [text_id],
                             u_embeddings = PNone, u_documents = PList [text],
                             u_metadatas = (if py_truthy metadata then PList [metadata] else PNone)\<rparr>]\<rparr>\<rparr>)"
  using assms
  by (simp add: update_on_existing strict_upsert_def)

lemma update_missing:
  assumes "text_id \<noteq> PNone"
    and "collection self = Some c"
    and "c_entries c text_id = None"
  shows "update self text_id text metadata =
     (Inl (ValueError (NoEntryFound text_id)),
      self\<lparr>collection := Some (c\<lparr>c_requests := c_requests c @ [GetReq [text_id] ]\<rparr>)\<rparr>)"
  using assms
  by (simp add: update_def store_get_active apply_get_single)

lemma delete_active:
  assumes "collection self = Some c"
  shows "delete self text_id =
     (Inr PNone,
      self\<lparr>collection := Some (c\<lparr>c_entries := (c_entries c)(text_id := None),
                                 c_requests := c_requests c @ [DeleteReq [text_id] ]\<rparr>)\<rparr>)"
  using assms
  by (simp add: delete_def store_delete_def apply_delete_def)

lemma fill_ids_fields:
  "collection (snd (fill_ids xs self)) = collection self \<and>
   embedding_model (snd (fill_ids xs self)) = embedding_model self"
  by (induction xs arbitrary: self) (simp_all add: uuid4_def case_prod_beta)

lemma fresh_ids_fields:
  "collection (snd (fresh_ids ts self)) = collection self \<and>
   embedding_model (snd (fresh_ids ts self)) = embedding_model self"
  by (induction ts arbitrary: self) (simp_all add: uuid4_def case_prod_beta)

lemma resolve_ids_fields:
  "collection (snd (resolve_ids self ts text_ids)) = collection self \<and>
   embedding_model (snd (resolve_ids self ts text_ids)) = embedding_model self"
proof -
  have a: "collection (snd (fresh_ids ts self)) = collection self"
    and b: "embedding_model (snd (fresh_ids ts self)) = embedding_model self"
    using fresh_ids_fields [of ts self] by simp_all
  have c: "\<And>ids. collection (snd (fill_ids ids self)) = collection self"
    and d: "\<And>ids. embedding_model (snd (fill_ids ids self)) = embedding_model self"
    using fill_ids_fields [of _ self] by simp_all
  show ?thesis
    using a b c d
    by (auto simp: resolve_ids_def case_prod_beta split: sum.splits pyval.splits)
qed

lemma py_iter_no_none:
  "py_iter v = Inr items \<Longrightarrow> list_ex (\<lambda>x. x = PNone) items \<Longrightarrow> is_list v"
  by (cases v) (auto simp: list_ex_iff)

lemma resolve_ids_succeeds:
  assumes "text_ids = PNone \<or> py_len text_ids = Inr (length ts)"
  shows "\<exists>ids. fst (resolve_ids self ts text_ids) = Inr ids"
proof (cases "text_ids = PNone")
  case True
  then show ?thesis by (simp add: resolve_ids_def split: prod.splits)
next
  case False
  with assms have len: "py_len text_ids = Inr (length ts)" by simp
  then obtain items where it: "py_iter text_ids = Inr items"
    by (cases text_ids) auto
  show ?thesis
  proof (cases "list_ex (\<lambda>x. x = PNone) items")
    case True
    with it have "is_list text_ids" by (rule py_iter_no_none)
    then obtain ids where "text_ids = PList ids" by (cases text_ids) auto
    with False len it True show ?thesis
      by (simp add: resolve_ids_def split: prod.splits)
  next
    case False
    with \<open>text_ids \<noteq> PNone\<close> len it show ?thesis
      by (simp add: resolve_ids_def)
  qed
qed

lemma batch_insert_bad_texts:
  "\<not> (is_list texts \<and> py_truthy texts) \<Longrightarrow>
   batch_insert self texts metadatas text_ids = (Inl (ValueError TextsNotNonEmptyList), self)"
  by (cases texts) (auto simp: batch_insert_def)

lemma result_item_covered:
  assumes "rows_cover results"
    and "i < length (first_row (r_ids results))"
  shows "result_item results i =
     Inr (PDict [(''id'', first_row (r_ids results) ! i),
                 (''text'', first_row (r_documents results) ! i),
                 (''metadata'', (case r_metadatas results of
                                   Some (mds0 # mds_rest) \<Rightarrow> mds0 ! i | _ \<Rightarrow> PNone)),
                 (''distance'', first_row (r_distances results) ! i)])"
  using assms
  by (auto simp: rows_cover_def first_row_def result_item_def nth_err_def
        split: option.splits list.splits)

lemma result_item_error:
  "result_item results i = Inl e \<Longrightarrow> e = IndexError"
  by (auto simp: result_item_def nth_err_def split: sum.splits option.splits if_splits)

lemma result_item_uncovered:
  assumes "r_ids results = ids0 # ids_rest"
    and "ids0 \<noteq> []"
    and "\<not> rows_cover results"
  shows "\<exists>e. result_item results (length ids0 - 1) = Inl e"
  using assms
  by (auto simp: rows_cover_def first_row_def result_item_def nth_err_def
        split: option.splits list.splits)

lemma flatten_loop_map:
  "(\<And>i. i \<in> set idxs \<Longrightarrow> result_item results i = Inr (f i)) \<Longrightarrow>
   flatten_loop results idxs acc = Inr (acc @ map f idxs)"
  by (induction idxs arbitrary: acc) simp_all

lemma flatten_loop_error:
  "flatten_loop results idxs acc = Inl e \<Longrightarrow> e = IndexError"
  by (induction idxs arbitrary: acc) (auto split: sum.splits dest: result_item_error)

lemma flatten_loop_fails:
  "i \<in> set idxs \<Longrightarrow> result_item results i = Inl e \<Longrightarrow>
   \<exists>e'. flatten_loop results idxs acc = Inl e'"
  by (induction idxs arbitrary: acc) (auto split: sum.splits)

lemma flatten_results_covered:
  assumes "rows_cover results"
  shows "flatten_results results =
     Inr (map (\<lambda>i. PDict [(''id'', first_row (r_ids results) ! i),
                          (''text'', first_row (r_documents results) ! i),
                          (''metadata'', (case r_metadatas results of
                                            Some (mds0 # mds_rest) \<Rightarrow> mds0 ! i | _ \<Rightarrow> PNone)),
                          (''distance'', first_row (r_distances results) ! i)])
              [0..<length (first_row (r_ids results))])"
proof -
  from assms obtain ids0 ids_rest where ids: "r_ids results = ids0 # ids_rest"
    by (cases "r_ids results") (auto simp: rows_cover_def)
  have "flatten_loop results [0..<length (first_row (r_ids results))] [] =
     Inr ([] @ map (\<lambda>i. PDict [(''id'', first_row (r_ids results) ! i),
                          (''text'', first_row (r_documents results) ! i),
                          (''metadata'', (case r_metadatas results of
                                            Some (mds0 # mds_rest) \<Rightarrow> mds0 ! i | _ \<Rightarrow> PNone)),
                          (''distance'', first_row (r_distances results) ! i)])
              [0..<length (first_row (r_ids results))])"
    by (rule flatten_loop_map) (simp add: result_item_covered [OF assms])
  then show ?thesis
    using ids by (simp add: flatten_results_def nth_err_def first_row_def)
qed

lemma flatten_results_uncovered:
  assumes "\<not> rows_cover results"
  shows "flatten_results results = Inl IndexError"
proof (cases "r_ids results")
  case Nil
  then show ?thesis
    by (simp add: flatten_results_def nth_err_def)
next
  case (Cons ids0 ids_rest)
  have nonempty: "ids0 \<noteq> []"
    using assms Cons by (auto simp: rows_cover_def first_row_def split: option.splits list.splits)
  then obtain e where e: "result_item results (length ids0 - 1) = Inl e"
    using result_item_uncovered [OF Cons _ assms] by blast
  have "length ids0 - 1 \<in> set [0..<length ids0]"
    using nonempty by simp
  then obtain e' where "flatten_loop results [0..<length ids0] [] = Inl e'"
    using flatten_loop_fails [OF _ e] by blast
  moreover from this have "e' = IndexError"
    by (rule flatten_loop_error)
  ultimately show ?thesis
    using Cons by (simp add: flatten_results_def nth_err_def)
qed

section \<open>Claims\<close>

text \<open>
  C1: \<open>update\<close> is claimed to recompute the embedding from \<open>text\<close> with the Embedder and
  to upsert it. On the facade holding the record \<open>"a"\<close>, \<open>update("a", "new text")\<close> returns
  normally, but the upsert it sends carries no embedding at all (the Embedder gives
  \<open>[8.0]\<close> for that text and is never asked), so the record is stored without an embedding
  of the facade's Embedder; \<open>insert\<close> of the same text under the same id sends and stores
  the Embedder's vector.
\<close>

theorem update_sends_no_embedding:
  "embed_text alice_db (PStr ''new text'') = Inr (PList [PFloat 8])
   \<and> fst (update alice_db (PStr ''a'') (PStr ''new text'') PNone) = Inr PNone
   \<and> map_option c_requests (collection (snd (update alice_db (PStr ''a'') (PStr ''new text'') PNone))) =
       Some [GetReq [PStr ''a''],
             UpsertReq \<lparr>u_ids = PList [PStr ''a''], u_embeddings = PNone,
                        u_documents = PList [PStr ''new text''], u_metadatas = PNone\<rparr>]
   \<and> map_option (\<lambda>c. c_entries c (PStr ''a''))
        (collection (snd (update alice_db (PStr ''a'') (PStr ''new text'') PNone))) =
       Some (Some \<lparr>e_embedding = PNone, e_document = PStr ''new text'', e_metadata = PNone\<rparr>)
   \<and> map_option (\<lambda>c. c_entries c (PStr ''a''))
        (collection (snd (insert_text alice_db (PStr ''new text'') PNone (PStr ''a'')))) =
       Some (Some \<lparr>e_embedding = PList [PFloat 8], e_document = PStr ''new text'', e_metadata = PNone\<rparr>)"
proof -
  have u: "update alice_db (PStr ''a'') (PStr ''new text'') PNone =
     (Inr PNone,
      alice_db\<lparr>collection := Some
             \<lparr>c_entries = [PStr ''a'' \<mapsto> alice_entry]
                 (PStr ''a'' \<mapsto> \<lparr>e_embedding = PNone, e_document = PStr ''new text'',
                     e_metadata = PNone\<rparr>),
              c_requests = [GetReq [PStr ''a''],
                  UpsertReq \<lparr>u_ids = PList [PStr ''a''],
                             u_embeddings = PNone, u_documents = PList [PStr ''new text''],
                             u_metadatas = PNone\<rparr>]\<rparr>\<rparr>)"
    using update_existing [of "PStr ''a''" alice_db
        "\<lparr>c_entries = [PStr ''a'' \<mapsto> alice_entry], c_requests = []\<rparr>" alice_entry
        "PStr ''new text''" PNone]
    by (simp add: alice_db_def)
  have i: "insert_text alice_db (PStr ''new text'') PNone (PStr ''a'') =
     (Inr (PStr ''a''),
      alice_db\<lparr>collection := Some
             \<lparr>c_entries = [PStr ''a'' \<mapsto> alice_entry]
                 (PStr ''a'' \<mapsto> \<lparr>e_embedding = PList [PFloat 8], e_document = PStr ''new text'',
                     e_metadata = PNone\<rparr>),
              c_requests = [UpsertReq \<lparr>u_ids = PList [PStr ''a''],
                             u_embeddings = PList [PList [PFloat 8] ],
                             u_documents = PList [PStr ''new text''],
                             u_metadatas = PNone\<rparr>]\<rparr>\<rparr>)"
    using insert_single [of "PStr ''new text''" PNone "PStr ''a''" alice_db "PList [PFloat 8]"
        "\<lparr>c_entries = [PStr ''a'' \<mapsto> alice_entry], c_requests = []\<rparr>"]
    by (simp add: alice_db_def)
  have e: "embed_text alice_db (PStr ''new text'') = Inr (PList [PFloat 8])"
    by (simp add: embed_text_def alice_db_def)
  show ?thesis
    by (simp add: u i e)
qed

text \<open>
  C2, as amended: \<open>insert\<close> rejects a text that is absent or empty (any falsy value) with
  a ValidationError and leaves the collection, entries and trace of store calls, as it
  was; \<open>batch_insert\<close> rejects a \<open>texts\<close> argument that is absent, not a list or empty,
  leaving the whole state as it was. (Neither the elements of \<open>texts\<close> nor the \<open>text\<close> of
  \<open>update\<close> are validated: see the counterexample.)
\<close>

theorem falsy_text_rejected_by_insert:
  assumes "\<not> py_truthy text"
  shows "fst (insert_text self text metadata text_id) =
           Inl (ValueError (if is_list text \<and> is_list metadata \<and> is_list text_id
                            then TextsNotNonEmptyList else TextContentNone))
       \<and> kind (ValueError TextsNotNonEmptyList) = ValidationError
       \<and> kind (ValueError TextContentNone) = ValidationError
       \<and> collection (snd (insert_text self text metadata text_id)) = collection self
       \<and> (\<not> (is_list texts \<and> py_truthy texts) \<longrightarrow>
            batch_insert self texts metadatas text_ids =
              (Inl (ValueError TextsNotNonEmptyList), self))"
proof (cases "is_list text \<and> is_list metadata \<and> is_list text_id")
  case True
  with assms have "batch_insert self text metadata text_id =
      (Inl (ValueError TextsNotNonEmptyList), self)"
    by (intro batch_insert_bad_texts) simp
  with True show ?thesis
    by (simp add: insert_text_def batch_insert_bad_texts)
next
  case False
  then have single: "(is_list text \<and> is_list metadata \<and> is_list text_id) = False"
    by simp
  have "fst (insert_text self text metadata text_id) = Inl (ValueError TextContentNone)"
    and "collection (snd (insert_text self text metadata text_id)) = collection self"
    unfolding insert_text_def single using assms
    by (simp_all add: uuid4_def)
  then show ?thesis
    using single by (simp add: batch_insert_bad_texts)
qed

theorem falsy_text_rejected_by_insert_witness:
  "fst (insert_text alice_db (PStr []) PNone (PStr ''a'')) = Inl (ValueError TextContentNone)
   \<and> fst (insert_text alice_db PNone PNone PNone) = Inl (ValueError TextContentNone)
   \<and> collection (snd (insert_text alice_db PNone PNone PNone)) = collection alice_db
   \<and> batch_insert alice_db PNone PNone PNone = (Inl (ValueError TextsNotNonEmptyList), alice_db)"
  using falsy_text_rejected_by_insert [of "PStr []" alice_db PNone "PStr ''a''" PNone PNone PNone]
    falsy_text_rejected_by_insert [of PNone alice_db PNone PNone PNone PNone PNone]
  by simp

text \<open>
  C2 as stated fails: on the facade holding the record \<open>"a"\<close>, \<open>update("a")\<close> with the
  text absent, and with the text empty, returns normally and the stored text is then
  absent, respectively empty; \<open>batch_insert(["", None], ids=["k", "l"])\<close> returns normally
  and stores a record whose text is absent.
\<close>

theorem text_validation_counterexample:
  "fst (update alice_db (PStr ''a'') PNone PNone) = Inr PNone
   \<and> map_option (\<lambda>c. map_option e_document (c_entries c (PStr ''a'')))
        (collection (snd (update alice_db (PStr ''a'') PNone PNone))) = Some (Some PNone)
   \<and> fst (update alice_db (PStr ''a'') (PStr []) PNone) = Inr PNone
   \<and> map_option (\<lambda>c. map_option e_document (c_entries c (PStr ''a'')))
        (collection (snd (update alice_db (PStr ''a'') (PStr []) PNone))) = Some (Some (PStr []))
   \<and> fst (batch_insert empty_db (PList [PStr [], PNone]) PNone (PList [PStr ''k'', PStr ''l''])) =
        Inr (PList [PStr ''k'', PStr ''l''])
   \<and> map_option (\<lambda>c. map_option e_document (c_entries c (PStr ''l'')))
        (collection (snd (batch_insert empty_db (PList [PStr [], PNone]) PNone
                            (PList [PStr ''k'', PStr ''l''])))) = Some (Some PNone)"
proof -
  have u: "\<And>text. update alice_db (PStr ''a'') text PNone =
     (Inr PNone,
      alice_db\<lparr>collection := Some
             \<lparr>c_entries = [PStr ''a'' \<mapsto> alice_entry]
                 (PStr ''a'' \<mapsto> \<lparr>e_embedding = PNone, e_document = text, e_metadata = PNone\<rparr>),
              c_requests = [GetReq [PStr ''a''],
                  UpsertReq \<lparr>u_ids = PList [PStr ''a''],
                             u_embeddings = PNone, u_documents = PList [text],
                             u_metadatas = PNone\<rparr>]\<rparr>\<rparr>)"
    using update_existing [of "PStr ''a''" alice_db
        "\<lparr>c_entries = [PStr ''a'' \<mapsto> alice_entry], c_requests = []\<rparr>" alice_entry _ PNone]
    by (simp add: alice_db_def)
  have b: "fst (batch_insert empty_db (PList [PStr [], PNone]) PNone (PList [PStr ''k'', PStr ''l''])) =
        Inr (PList [PStr ''k'', PStr ''l''])"
    and c: "map_option (\<lambda>c. map_option e_document (c_entries c (PStr ''l'')))
        (collection (snd (batch_insert empty_db (PList [PStr [], PNone]) PNone
                            (PList [PStr ''k'', PStr ''l''])))) = Some (Some PNone)"
    by (simp_all add: batch_insert_def resolve_ids_def resolve_metadatas_def embed_texts_def
          store_upsert_def apply_upsert_def in_contract_def lenient_upsert_def upsert_rows_def
          opt_column_def put_entry_def empty_db_def)
  show ?thesis
    by (simp add: u b c)
qed

text \<open>
  C3, as amended: for a non-empty string \<open>text\<close>, an Embedder that returns and an active
  collection, \<open>insert\<close> returns the effective id (the caller's, or the text of a freshly
  drawn UUID when the id is absent), and \<open>get\<close> on that id then returns the record with
  that id, the input text, and as metadata what was supplied when it is truthy, and
  absent when no metadata or a falsy one (such as the empty mapping) was supplied.
\<close>

theorem insert_then_get:
  assumes "s \<noteq> []"
    and "embedding_model self (PStr s) = Inr emb"
    and "collection self = Some c"
  shows "fst (insert_text self (PStr s) metadata text_id) =
           Inr (if text_id = PNone then PStr (uuid_str (uuid_draws self)) else text_id)
       \<and> uuid_draws (snd (insert_text self (PStr s) metadata text_id)) =
           (if text_id = PNone then Suc (uuid_draws self) else uuid_draws self)
       \<and> fst (get (snd (insert_text self (PStr s) metadata text_id))
                (if text_id = PNone then PStr (uuid_str (uuid_draws self)) else text_id)) =
           Inr (PDict [(''id'', if text_id = PNone then PStr (uuid_str (uuid_draws self)) else text_id),
                       (''text'', PStr s),
                       (''metadata'', if py_truthy metadata then metadata else PNone)])"
  using assms
  by (simp add: insert_single get_active)

theorem insert_then_get_witness:
  "fst (insert_text empty_db (PStr ''I enjoy hiking'') (PDict [(''name'', PStr ''Alice'')]) PNone) =
      Inr (PStr (uuid_str 0))
   \<and> fst (get (snd (insert_text empty_db (PStr ''I enjoy hiking'')
                      (PDict [(''name'', PStr ''Alice'')]) PNone)) (PStr (uuid_str 0))) =
      Inr (PDict [(''id'', PStr (uuid_str 0)), (''text'', PStr ''I enjoy hiking''),
                  (''metadata'', PDict [(''name'', PStr ''Alice'')])])"
  using insert_then_get [of "''I enjoy hiking''" empty_db "PList [PFloat 14]"
      "\<lparr>c_entries = Map.empty, c_requests = []\<rparr>" "PDict [(''name'', PStr ''Alice'')]" PNone]
  by (simp add: empty_db_def)

text \<open>
  C3 as stated fails for the empty mapping: after \<open>insert("hi", {}, "x")\<close>, \<open>get("x")\<close>
  returns metadata \<open>None\<close>, not the \<open>{}\<close> that was supplied.
\<close>

theorem insert_empty_metadata_counterexample:
  "fst (insert_text empty_db (PStr ''hi'') (PDict []) (PStr ''x'')) = Inr (PStr ''x'')
   \<and> fst (get (snd (insert_text empty_db (PStr ''hi'') (PDict []) (PStr ''x''))) (PStr ''x'')) =
       Inr (PDict [(''id'', PStr ''x''), (''text'', PStr ''hi''), (''metadata'', PNone)])
   \<and> PNone \<noteq> PDict []"
proof -
  have "insert_text empty_db (PStr ''hi'') (PDict []) (PStr ''x'') =
     (Inr (PStr ''x''),
      empty_db\<lparr>collection := Some
             \<lparr>c_entries = [PStr ''x'' \<mapsto> \<lparr>e_embedding = PList [PFloat 2], e_document = PStr ''hi'',
                                           e_metadata = PNone\<rparr>],
              c_requests = [UpsertReq \<lparr>u_ids = PList [PStr ''x''],
                             u_embeddings = PList [PList [PFloat 2] ], u_documents = PList [PStr ''hi''],
                             u_metadatas = PNone\<rparr>]\<rparr>\<rparr>)"
    using insert_single [of "PStr ''hi''" "PDict []" "PStr ''x''" empty_db "PList [PFloat 2]"
        "\<lparr>c_entries = Map.empty, c_requests = []\<rparr>"]
    by (simp add: empty_db_def)
  then show ?thesis
    by (simp add: get_active)
qed

text \<open>
  C4: when \<open>text\<close>, \<open>metadata\<close> and \<open>text_id\<close> are all lists, \<open>insert\<close> is
  \<open>batch_insert\<close> on those arguments: the same result (value or error) and the same
  final state. The dispatch does not look at the lengths, so this holds for lists of any
  lengths, equal ones included.
\<close>

theorem insert_lists_is_batch_insert:
  "insert_text self (PList texts) (PList metadatas) (PList text_ids) =
   batch_insert self (PList texts) (PList metadatas) (PList text_ids)"
  by (simp add: insert_text_def)

text \<open>
  C5: every absent slot of \<open>text_ids\<close> is claimed to receive a freshly generated string
  identifier. \<open>batch_insert(["x", "y"], text_ids=["k", None])\<close> returns \<open>["k", u]\<close> where
  \<open>u\<close> is the UUID object itself, not its string; with \<open>text_ids\<close> absent altogether the
  ids are the strings of the UUIDs drawn.
\<close>

theorem batch_insert_fills_uuid_objects:
  "fst (batch_insert empty_db (PList [PStr ''x'', PStr ''y'']) PNone (PList [PStr ''k'', PNone])) =
      Inr (PList [PStr ''k'', PUuid 0])
   \<and> fst (batch_insert empty_db (PList [PStr ''x'', PStr ''y'']) PNone PNone) =
      Inr (PList [PStr (uuid_str 0), PStr (uuid_str 1)])"
  by (simp add: batch_insert_def resolve_ids_def resolve_metadatas_def embed_texts_def uuid4_def
        store_upsert_def apply_upsert_def in_contract_def upsert_rows_def opt_column_def
        empty_db_def)

text \<open>
  C6, as amended: \<open>batch_insert\<close> fails with a ValidationError (a ValueError of the
  source) when \<open>texts\<close> is absent, not a list or empty, and when the provided \<open>text_ids\<close>
  has a length other than \<open>len(texts)\<close>; in both cases the whole state is returned as it
  was. When the provided \<open>metadatas\<close> has a length other than \<open>len(texts)\<close> it fails too:
  with the ValidationError if the Embedder returns, and with the Embedder's own error
  if the Embedder fails, because the texts are embedded (line 93) before \<open>metadatas\<close> is
  checked (lines 96-99). In that case too the collection (entries and trace of store
  calls) is as it was: no store call has been made.
\<close>

theorem batch_insert_validation:
  "(\<not> (is_list texts \<and> py_truthy texts) \<longrightarrow>
      batch_insert self texts metadatas text_ids = (Inl (ValueError TextsNotNonEmptyList), self))
   \<and> (texts = PList ts \<and> ts \<noteq> [] \<and> py_len text_ids = Inr n \<and> n \<noteq> length ts \<longrightarrow>
      batch_insert self texts metadatas text_ids = (Inl (ValueError TextIdsCount), self))
   \<and> (texts = PList ts \<and> ts \<noteq> [] \<and> (text_ids = PNone \<or> py_len text_ids = Inr (length ts))
       \<and> py_len metadatas = Inr n \<and> n \<noteq> length ts \<longrightarrow>
      fst (batch_insert self texts metadatas text_ids) =
        (case embedding_model self texts of
           Inl e \<Rightarrow> Inl e
         | Inr embeddings \<Rightarrow> Inl (ValueError MetadatasCount))
      \<and> collection (snd (batch_insert self texts metadatas text_ids)) = collection self)"
proof (intro conjI impI)
  assume "\<not> (is_list texts \<and> py_truthy texts)"
  then show "batch_insert self texts metadatas text_ids = (Inl (ValueError TextsNotNonEmptyList), self)"
    by (rule batch_insert_bad_texts)
next
  assume "texts = PList ts \<and> ts \<noteq> [] \<and> py_len text_ids = Inr n \<and> n \<noteq> length ts"
  then show "batch_insert self texts metadatas text_ids = (Inl (ValueError TextIdsCount), self)"
    by (cases text_ids) (auto simp: batch_insert_def resolve_ids_def)
next
  assume h: "texts = PList ts \<and> ts \<noteq> [] \<and> (text_ids = PNone \<or> py_len text_ids = Inr (length ts))
       \<and> py_len metadatas = Inr n \<and> n \<noteq> length ts"
  then obtain ids where ids: "fst (resolve_ids self ts text_ids) = Inr ids"
    using resolve_ids_succeeds [of text_ids ts self] by blast
  obtain self1 where r: "resolve_ids self ts text_ids = (Inr ids, self1)"
    using ids by (cases "resolve_ids self ts text_ids") simp
  have f: "collection self1 = collection self" "embedding_model self1 = embedding_model self"
    using resolve_ids_fields [of self ts text_ids] r by simp_all
  have m: "resolve_metadatas ts metadatas = Inl (ValueError MetadatasCount)"
    using h by (cases metadatas) (auto simp: resolve_metadatas_def)
  have "batch_insert self texts metadatas text_ids =
      ((case embedding_model self texts of
          Inl e \<Rightarrow> Inl e
        | Inr embeddings \<Rightarrow> Inl (ValueError MetadatasCount)), self1)"
    using h r f m by (auto simp: batch_insert_def embed_texts_def split: sum.splits)
  then show "fst (batch_insert self texts metadatas text_ids) =
        (case embedding_model self texts of
           Inl e \<Rightarrow> Inl e
         | Inr embeddings \<Rightarrow> Inl (ValueError MetadatasCount))"
    and "collection (snd (batch_insert self texts metadatas text_ids)) = collection self"
    using f by simp_all
qed

theorem batch_insert_validation_witness:
  "batch_insert alice_db (PList []) PNone PNone = (Inl (ValueError TextsNotNonEmptyList), alice_db)
   \<and> batch_insert alice_db (PStr ''one text'') PNone PNone = (Inl (ValueError TextsNotNonEmptyList), alice_db)
   \<and> batch_insert alice_db (PList [PStr ''x'', PStr ''y'']) PNone (PList [PStr ''k'']) =
        (Inl (ValueError TextIdsCount), alice_db)
   \<and> fst (batch_insert alice_db (PList [PStr ''x'', PStr ''y'']) (PList [PNone]) PNone) =
        Inl (ValueError MetadatasCount)
   \<and> collection (snd (batch_insert alice_db (PList [PStr ''x'', PStr ''y'']) (PList [PNone]) PNone)) =
        collection alice_db
   \<and> fst (batch_insert offline_db (PList [PStr ''x'', PStr ''y'']) (PList [PNone]) PNone) =
        Inl EmbedderFailure
   \<and> collection (snd (batch_insert offline_db (PList [PStr ''x'', PStr ''y'']) (PList [PNone]) PNone)) =
        collection offline_db"
proof -
  have e: "embedding_model alice_db (PList [PStr ''x'', PStr ''y'']) =
             Inr (PList [PList [PFloat 1], PList [PFloat 1] ])"
    "embedding_model offline_db (PList [PStr ''x'', PStr ''y'']) = Inl EmbedderFailure"
    by (simp_all add: alice_db_def offline_db_def failing_encode_def)
  show ?thesis
    using e
      batch_insert_validation [of "PList []" alice_db PNone PNone "[]" 0]
      batch_insert_validation [of "PStr ''one text''" alice_db PNone PNone "[]" 0]
      batch_insert_validation [of "PList [PStr ''x'', PStr ''y'']" alice_db PNone "PList [PStr ''k'']"
         "[PStr ''x'', PStr ''y'']" 1]
      batch_insert_validation [of "PList [PStr ''x'', PStr ''y'']" alice_db "PList [PNone]" PNone
         "[PStr ''x'', PStr ''y'']" 1]
      batch_insert_validation [of "PList [PStr ''x'', PStr ''y'']" offline_db "PList [PNone]" PNone
         "[PStr ''x'', PStr ''y'']" 1]
    by simp
qed

text \<open>
  C6 as stated fails when the Embedder fails: with two texts and one metadata,
  \<open>batch_insert\<close> raises the Embedder's error, a CollaboratorError, not a
  ValidationError.
\<close>

theorem batch_insert_embedder_first_counterexample:
  "py_len (PList [PNone]) = Inr 1
   \<and> fst (batch_insert offline_db (PList [PStr ''x'', PStr ''y'']) (PList [PNone]) PNone) =
        Inl EmbedderFailure
   \<and> kind EmbedderFailure = CollaboratorError"
  by (simp add: batch_insert_def resolve_ids_def embed_texts_def uuid4_def offline_db_def
        failing_encode_def)

text \<open>
  C7, as amended: for every query text, \<open>top_k\<close> and store response, when the Embedder
  returns and a collection is active: if the response has a first row of ids and its
  first rows of documents, distances and (when a metadata array is returned) metadatas
  are at least as long, \<open>query\<close> returns one item \<open>{id, text, metadata, distance}\<close> per id
  of that row, in the store's order (so the distances come in the order the store gave
  them, and there are as many items as the store returned matches, more than \<open>top_k\<close>
  if the store returned more); otherwise it raises IndexError. An item's metadata is
  absent if the store returned no metadata array (\<open>None\<close> or an empty one), and is
  otherwise the store's metadata entry for that match, which is itself \<open>None\<close> for a
  record without metadata.
\<close>

theorem query_flattens_store_response:
  assumes "embedding_model self query_text = Inr emb"
    and "collection self = Some c"
    and "search \<lparr>query_embeddings = PList [emb], n_results = top_k,
                 q_where = (if py_truthy wh then Some wh else None)\<rparr> (c_entries c) = Inr results"
  shows "fst (query search self query_text top_k wh) =
     (if rows_cover results
      then Inr (PList (map (\<lambda>i. PDict [(''id'', first_row (r_ids results) ! i),
                          (''text'', first_row (r_documents results) ! i),
                          (''metadata'', (case r_metadatas results of
                                            Some (mds0 # mds_rest) \<Rightarrow> mds0 ! i | _ \<Rightarrow> PNone)),
                          (''distance'', first_row (r_distances results) ! i)])
                      [0..<length (first_row (r_ids results))]))
      else Inl IndexError)"
proof (cases "rows_cover results")
  case True
  then show ?thesis
    using assms by (simp add: query_def embed_text_def flatten_results_covered)
next
  case False
  then show ?thesis
    using assms by (simp add: query_def embed_text_def flatten_results_uncovered)
qed

theorem query_flattens_store_response_witness:
  "embedding_model alice_db (PStr ''greeting'') = Inr (PList [PFloat 8])
   \<and> rows_cover two_matches
   \<and> r_metadatas two_matches = None
   \<and> fst (query pair_search alice_db (PStr ''greeting'') (PInt 2) PNone) =
       Inr (PList [PDict [(''id'', PStr ''a''), (''text'', PStr ''hello''), (''metadata'', PNone),
                          (''distance'', PFloat (1/4))],
                   PDict [(''id'', PStr ''b''), (''text'', PStr ''bye''), (''metadata'', PNone),
                          (''distance'', PFloat (1/2))] ])
   \<and> \<not> rows_cover short_match
   \<and> fst (query short_search alice_db (PStr ''greeting'') (PInt 2) PNone) = Inl IndexError"
  using query_flattens_store_response [of alice_db "PStr ''greeting''" "PList [PFloat 8]"
      "\<lparr>c_entries = [PStr ''a'' \<mapsto> alice_entry], c_requests = []\<rparr>" pair_search
      "PInt 2" PNone two_matches]
    query_flattens_store_response [of alice_db "PStr ''greeting''" "PList [PFloat 8]"
      "\<lparr>c_entries = [PStr ''a'' \<mapsto> alice_entry], c_requests = []\<rparr>" short_search
      "PInt 2" PNone short_match]
  by (simp add: alice_db_def two_matches_def pair_search_def short_match_def short_search_def
        rows_cover_def first_row_def upt_rec)

text \<open>
  C7 as stated fails in three ways. "Exactly when": the store answers with a metadata
  array, a list holding the one row \<open>[None]\<close>, and the item's metadata is absent all the
  same. "At most \<open>top_k\<close>": the store answers a query for one result with two matches, and
  \<open>query\<close> returns two items. "For every store response": on an answer whose row of
  documents is shorter than its row of ids \<open>query\<close> raises IndexError, and when the
  Embedder fails it raises the Embedder's error.
\<close>

theorem query_metadata_counterexample:
  "r_metadatas one_match = Some [ [PNone] ]
   \<and> fst (query demo_search alice_db (PStr ''hello'') (PInt 1) PNone) =
       Inr (PList [PDict [(''id'', PStr ''a''), (''text'', PStr ''hello''), (''metadata'', PNone),
                          (''distance'', PFloat (1/2))] ])
   \<and> fst (query pair_search alice_db (PStr ''greeting'') (PInt 1) PNone) =
       Inr (PList [PDict [(''id'', PStr ''a''), (''text'', PStr ''hello''), (''metadata'', PNone),
                          (''distance'', PFloat (1/4))],
                   PDict [(''id'', PStr ''b''), (''text'', PStr ''bye''), (''metadata'', PNone),
                          (''distance'', PFloat (1/2))] ])
   \<and> fst (query short_search alice_db (PStr ''greeting'') (PInt 2) PNone) = Inl IndexError
   \<and> fst (query pair_search offline_db (PStr ''greeting'') (PInt 2) PNone) = Inl EmbedderFailure"
  by (simp add: query_def embed_text_def alice_db_def offline_db_def failing_encode_def
        demo_search_def one_match_def pair_search_def two_matches_def
        short_search_def short_match_def
        flatten_results_def result_item_def nth_err_def upt_rec)

text \<open>
  C8: for an id with no record in the active collection, \<open>get\<close> fails with the
  not-found error, \<open>update\<close> (whose id must not be \<open>None\<close>) fails with it too, and
  \<open>delete\<close> returns normally, leaves the entries as they were, and a \<open>get\<close> after it
  still fails with the not-found error.
\<close>

theorem missing_id_get_update_delete:
  assumes "collection self = Some c"
    and "c_entries c text_id = None"
  shows "fst (get self text_id) = Inl (ValueError (NoEntryFound text_id))
       \<and> kind (ValueError (NoEntryFound text_id)) = NotFoundError
       \<and> (text_id \<noteq> PNone \<longrightarrow>
            fst (update self text_id text metadata) = Inl (ValueError (NoEntryFound text_id)))
       \<and> fst (delete self text_id) = Inr PNone
       \<and> map_option c_entries (collection (snd (delete self text_id))) = Some (c_entries c)
       \<and> fst (get (snd (delete self text_id)) text_id) = Inl (ValueError (NoEntryFound text_id))"
proof -
  have "(c_entries c)(text_id := None) = c_entries c"
    using assms(2) by (simp add: fun_upd_idem)
  then show ?thesis
    using assms by (simp add: get_active update_missing delete_active)
qed

theorem missing_id_get_update_delete_witness:
  "collection empty_db = Some \<lparr>c_entries = Map.empty, c_requests = []\<rparr>
   \<and> fst (get empty_db (PStr ''ghost'')) = Inl (ValueError (NoEntryFound (PStr ''ghost'')))
   \<and> fst (update empty_db (PStr ''ghost'') (PStr ''text'') PNone) =
        Inl (ValueError (NoEntryFound (PStr ''ghost'')))
   \<and> fst (delete empty_db (PStr ''ghost'')) = Inr PNone
   \<and> fst (get (snd (delete empty_db (PStr ''ghost''))) (PStr ''ghost'')) =
        Inl (ValueError (NoEntryFound (PStr ''ghost'')))"
  using missing_id_get_update_delete
    [of empty_db "\<lparr>c_entries = Map.empty, c_requests = []\<rparr>" "PStr ''ghost''" "PStr ''text''" PNone]
  by (simp add: empty_db_def)

text \<open>
  C9, as amended: for an existing record id, \<open>update\<close> with \<open>text\<close> absent is not
  rejected by the facade: after the existence check it sends the store an upsert with
  \<open>documents=[None]\<close> and no embeddings (the text is neither validated nor merged with
  the prior one). The call returns normally exactly when the store accepts that upsert,
  which the collaborator contract does not grant. Over a store that accepts it and
  replaces by id, the stored text is then absent and \<open>get\<close> returns the record with text
  \<open>None\<close>; over a store that refuses it, \<open>update\<close> fails with the store's error and the
  entries are as they were.
\<close>

theorem update_without_text_sends_none:
  assumes "collection self = Some c"
    and "c_entries c text_id = Some e"
    and "text_id \<noteq> PNone"
  shows "map_option c_requests (collection (snd (update self text_id PNone metadata))) =
           Some (c_requests c @
                   [GetReq [text_id],
                    UpsertReq \<lparr>u_ids = PList [text_id], u_embeddings = PNone,
                               u_documents = PList [PNone],
                               u_metadatas = (if py_truthy metadata then PList [metadata] else PNone)\<rparr>])
       \<and> fst (update self text_id PNone metadata) =
           (case off_contract_upsert self
                   \<lparr>u_ids = PList [text_id], u_embeddings = PNone, u_documents = PList [PNone],
                    u_metadatas = (if py_truthy metadata then PList [metadata] else PNone)\<rparr>
                   (c_entries c) of
              None \<Rightarrow> Inl StoreFailure
            | Some m \<Rightarrow> Inr PNone)
       \<and> (off_contract_upsert self = lenient_upsert \<longrightarrow>
            fst (update self text_id PNone metadata) = Inr PNone
            \<and> map_option (\<lambda>c'. map_option e_document (c_entries c' text_id))
                 (collection (snd (update self text_id PNone metadata))) = Some (Some PNone)
            \<and> fst (get (snd (update self text_id PNone metadata)) text_id) =
                 Inr (PDict [(''id'', text_id), (''text'', PNone),
                             (''metadata'', if py_truthy metadata then metadata else PNone)]))
       \<and> (off_contract_upsert self = strict_upsert \<longrightarrow>
            fst (update self text_id PNone metadata) = Inl StoreFailure
            \<and> map_option c_entries (collection (snd (update self text_id PNone metadata))) =
                 Some (c_entries c))"
proof (intro conjI impI)
  show "map_option c_requests (collection (snd (update self text_id PNone metadata))) =
           Some (c_requests c @
                   [GetReq [text_id],
                    UpsertReq \<lparr>u_ids = PList [text_id], u_embeddings = PNone,
                               u_documents = PList [PNone],
                               u_metadatas = (if py_truthy metadata then PList [metadata] else PNone)\<rparr>])"
    using assms by (simp add: update_on_existing split: option.splits)
  show "fst (update self text_id PNone metadata) =
           (case off_contract_upsert self
                   \<lparr>u_ids = PList [text_id], u_embeddings = PNone, u_documents = PList [PNone],
                    u_metadatas = (if py_truthy metadata then PList [metadata] else PNone)\<rparr>
                   (c_entries c) of
              None \<Rightarrow> Inl StoreFailure
            | Some m \<Rightarrow> Inr PNone)"
    using assms by (simp add: update_on_existing split: option.splits)
next
  assume l: "off_contract_upsert self = lenient_upsert"
  show "fst (update self text_id PNone metadata) = Inr PNone"
    and "map_option (\<lambda>c'. map_option e_document (c_entries c' text_id))
           (collection (snd (update self text_id PNone metadata))) = Some (Some PNone)"
    and "fst (get (snd (update self text_id PNone metadata)) text_id) =
           Inr (PDict [(''id'', text_id), (''text'', PNone),
                       (''metadata'', if py_truthy metadata then metadata else PNone)])"
    using assms l by (simp_all add: update_existing get_active)
next
  assume r: "off_contract_upsert self = strict_upsert"
  show "fst (update self text_id PNone metadata) = Inl StoreFailure"
    and "map_option c_entries (collection (snd (update self text_id PNone metadata))) =
           Some (c_entries c)"
    using assms r by (simp_all add: update_refused)
qed

theorem update_without_text_sends_none_witness:
  "collection alice_db = Some \<lparr>c_entries = [PStr ''a'' \<mapsto> alice_entry], c_requests = []\<rparr>
   \<and> off_contract_upsert alice_db = lenient_upsert
   \<and> fst (update alice_db (PStr ''a'') PNone (PDict [(''name'', PStr ''Alice'')])) = Inr PNone
   \<and> fst (get (snd (update alice_db (PStr ''a'') PNone (PDict [(''name'', PStr ''Alice'')])))
            (PStr ''a'')) =
       Inr (PDict [(''id'', PStr ''a''), (''text'', PNone),
                   (''metadata'', PDict [(''name'', PStr ''Alice'')])])
   \<and> off_contract_upsert strict_alice_db = strict_upsert
   \<and> fst (update strict_alice_db (PStr ''a'') PNone (PDict [(''name'', PStr ''Alice'')])) =
       Inl StoreFailure"
proof -
  have a: "collection alice_db = Some \<lparr>c_entries = [PStr ''a'' \<mapsto> alice_entry], c_requests = []\<rparr>"
    "off_contract_upsert alice_db = lenient_upsert"
    by (simp_all add: alice_db_def)
  have b: "collection strict_alice_db =
             Some \<lparr>c_entries = [PStr ''a'' \<mapsto> alice_entry], c_requests = []\<rparr>"
    "off_contract_upsert strict_alice_db = strict_upsert"
    by (simp_all add: strict_alice_db_def)
  have c: "lenient_upsert \<noteq> strict_upsert"
  proof
    assume "lenient_upsert = strict_upsert"
    then have "lenient_upsert \<lparr>u_ids = PList [], u_embeddings = PNone, u_documents = PList [],
                 u_metadatas = PNone\<rparr> Map.empty =
               strict_upsert \<lparr>u_ids = PList [], u_embeddings = PNone, u_documents = PList [],
                 u_metadatas = PNone\<rparr> Map.empty"
      by simp
    then show False
      by (simp add: lenient_upsert_def strict_upsert_def upsert_rows_def opt_column_def)
  qed
  show ?thesis
    using a b c
      update_without_text_sends_none [of alice_db
        "\<lparr>c_entries = [PStr ''a'' \<mapsto> alice_entry], c_requests = []\<rparr>" "PStr ''a''" alice_entry
        "PDict [(''name'', PStr ''Alice'')]"]
      update_without_text_sends_none [of strict_alice_db
        "\<lparr>c_entries = [PStr ''a'' \<mapsto> alice_entry], c_requests = []\<rparr>" "PStr ''a''" alice_entry
        "PDict [(''name'', PStr ''Alice'')]"]
    by (simp add: alice_entry_def lenient_upsert_def strict_upsert_def upsert_rows_def
          opt_column_def)
qed

text \<open>
  C9 as stated fails over a store that refuses the upsert: \<open>update("a")\<close> with the text
  absent raises the store's error, and \<open>get("a")\<close> still returns the prior text.
\<close>

theorem update_without_text_counterexample:
  "fst (update strict_alice_db (PStr ''a'') PNone PNone) = Inl StoreFailure
   \<and> kind StoreFailure = CollaboratorError
   \<and> fst (get (snd (update strict_alice_db (PStr ''a'') PNone PNone)) (PStr ''a'')) =
       Inr (PDict [(''id'', PStr ''a''), (''text'', PStr ''hello''),
                   (''metadata'', PDict [(''name'', PStr ''Alice'')])])"
proof -
  have "update strict_alice_db (PStr ''a'') PNone PNone =
     (Inl StoreFailure,
      strict_alice_db\<lparr>collection := Some
             \<lparr>c_entries = [PStr ''a'' \<mapsto> alice_entry],
              c_requests =
                 [GetReq [PStr ''a''],
                  UpsertReq \<lparr>u_ids = PList [PStr ''a''],
                             u_embeddings = PNone, u_documents = PList [PNone],
                             u_metadatas = PNone\<rparr>]\<rparr>\<rparr>)"
    using update_refused [of "PStr ''a''" strict_alice_db
        "\<lparr>c_entries = [PStr ''a'' \<mapsto> alice_entry], c_requests = []\<rparr>" alice_entry PNone PNone]
    by (simp add: strict_alice_db_def)
  then show ?thesis
    by (simp add: get_active alice_entry_def)
qed

text \<open>
  C10, as amended: when the metadata supplied is falsy (for example the empty mapping),
  \<open>update\<close>, and \<open>insert\<close> on a call that is not dispatched to \<open>batch_insert\<close> (text,
  metadata and id are not all lists), pass no metadata to the store: the call is exactly
  the call with metadata absent, with the same request, result and final state. After
  such an \<open>insert\<close> has succeeded, \<open>get\<close> on the id returns the record with metadata absent.
  Such an \<open>update\<close> of an existing record sends its upsert without \<open>metadatas\<close>, and \<open>get\<close>
  then returns metadata absent when the store accepts that upsert (sent without
  embeddings) and replaces by id.
\<close>

theorem falsy_metadata_is_absent:
  assumes "\<not> py_truthy metadata"
  shows "(\<not> (is_list text \<and> is_list metadata \<and> is_list text_id) \<longrightarrow>
            insert_text self text metadata text_id = insert_text self text PNone text_id)
       \<and> update self text_id text metadata = update self text_id text PNone
       \<and> (\<not> (is_list text \<and> is_list metadata \<and> is_list text_id) \<and> py_truthy text
            \<and> embedding_model self text = Inr emb \<and> collection self = Some c \<longrightarrow>
            map_option (\<lambda>c'. last (c_requests c'))
                (collection (snd (insert_text self text metadata text_id))) =
              Some (UpsertReq \<lparr>u_ids = PList [if text_id = PNone then PStr (uuid_str (uuid_draws self)) else text_id],
                               u_embeddings = PList [emb], u_documents = PList [text],
                               u_metadatas = PNone\<rparr>)
            \<and> fst (get (snd (insert_text self text metadata text_id))
                     (if text_id = PNone then PStr (uuid_str (uuid_draws self)) else text_id)) =
                Inr (PDict [(''id'', if text_id = PNone then PStr (uuid_str (uuid_draws self)) else text_id),
                            (''text'', text), (''metadata'', PNone)]))
       \<and> (text_id \<noteq> PNone \<and> collection self = Some c \<and> c_entries c text_id = Some e \<longrightarrow>
            map_option (\<lambda>c'. last (c_requests c'))
                (collection (snd (update self text_id text metadata))) =
              Some (UpsertReq \<lparr>u_ids = PList [text_id], u_embeddings = PNone,
                               u_documents = PList [text], u_metadatas = PNone\<rparr>))
       \<and> (text_id \<noteq> PNone \<and> collection self = Some c \<and> c_entries c text_id = Some e
            \<and> off_contract_upsert self = lenient_upsert \<longrightarrow>
            fst (get (snd (update self text_id text metadata)) text_id) =
                Inr (PDict [(''id'', text_id), (''text'', text), (''metadata'', PNone)]))"
proof (intro conjI impI)
  assume "\<not> (is_list text \<and> is_list metadata \<and> is_list text_id)"
  then have single: "(is_list text \<and> is_list metadata \<and> is_list text_id) = False"
    by simp
  have "(is_list text \<and> is_list PNone \<and> is_list text_id) = False"
    by simp
  then show "insert_text self text metadata text_id = insert_text self text PNone text_id"
    unfolding insert_text_def single using assms by simp
next
  show "update self text_id text metadata = update self text_id text PNone"
    using assms by (simp add: update_def)
next
  assume h: "\<not> (is_list text \<and> is_list metadata \<and> is_list text_id) \<and> py_truthy text
            \<and> embedding_model self text = Inr emb \<and> collection self = Some c"
  then have ins: "insert_text self text metadata text_id =
     (Inr (if text_id = PNone then PStr (uuid_str (uuid_draws self)) else text_id),
      self\<lparr>collection := Some
             \<lparr>c_entries = (c_entries c)
                 ((if text_id = PNone then PStr (uuid_str (uuid_draws self)) else text_id) \<mapsto>
                    \<lparr>e_embedding = emb, e_document = text,
                     e_metadata = (if py_truthy metadata then metadata else PNone)\<rparr>),
              c_requests = c_requests c @
                 [UpsertReq \<lparr>u_ids = PList [if text_id = PNone then PStr (uuid_str (uuid_draws self)) else text_id],
                             u_embeddings = PList [emb], u_documents = PList [text],
                             u_metadatas = (if py_truthy metadata then PList [metadata] else PNone)\<rparr>]\<rparr>,
           uuid_draws := (if text_id = PNone then Suc (uuid_draws self) else uuid_draws self)\<rparr>)"
    by (intro insert_single) simp_all
  show "map_option (\<lambda>c'. last (c_requests c'))
                (collection (snd (insert_text self text metadata text_id))) =
              Some (UpsertReq \<lparr>u_ids = PList [if text_id = PNone then PStr (uuid_str (uuid_draws self)) else text_id],
                               u_embeddings = PList [emb], u_documents = PList [text],
                               u_metadatas = PNone\<rparr>)"
    using assms by (simp add: ins)
  show "fst (get (snd (insert_text self text metadata text_id))
                     (if text_id = PNone then PStr (uuid_str (uuid_draws self)) else text_id)) =
                Inr (PDict [(''id'', if text_id = PNone then PStr (uuid_str (uuid_draws self)) else text_id),
                            (''text'', text), (''metadata'', PNone)])"
    using assms by (simp add: ins get_active)
next
  assume h: "text_id \<noteq> PNone \<and> collection self = Some c \<and> c_entries c text_id = Some e"
  then show "map_option (\<lambda>c'. last (c_requests c'))
                (collection (snd (update self text_id text metadata))) =
              Some (UpsertReq \<lparr>u_ids = PList [text_id], u_embeddings = PNone,
                               u_documents = PList [text], u_metadatas = PNone\<rparr>)"
    using assms by (simp add: update_on_existing split: option.splits)
next
  assume h: "text_id \<noteq> PNone \<and> collection self = Some c \<and> c_entries c text_id = Some e
            \<and> off_contract_upsert self = lenient_upsert"
  then have upd: "update self text_id text metadata =
     (Inr PNone,
      self\<lparr>collection := Some
             \<lparr>c_entries = (c_entries c)
                 (text_id \<mapsto> \<lparr>e_embedding = PNone, e_document = text,
                     e_metadata = (if py_truthy metadata then metadata else PNone)\<rparr>),
              c_requests = c_requests c @
                 [GetReq [text_id],
                  UpsertReq \<lparr>u_ids = PList [text_id],
                             u_embeddings = PNone, u_documents = PList [text],
                             u_metadatas = (if py_truthy metadata then PList [metadata] else PNone)\<rparr>]\<rparr>\<rparr>)"
    by (intro update_existing) simp_all
  show "fst (get (snd (update self text_id text metadata)) text_id) =
                Inr (PDict [(''id'', text_id), (''text'', text), (''metadata'', PNone)])"
    using assms by (simp add: upd get_active)
qed

theorem falsy_metadata_is_absent_witness:
  "\<not> py_truthy (PDict [])
   \<and> insert_text empty_db (PStr ''hi'') (PDict []) (PStr ''x'') =
       insert_text empty_db (PStr ''hi'') PNone (PStr ''x'')
   \<and> fst (get (snd (insert_text empty_db (PStr ''hi'') (PDict []) (PStr ''x''))) (PStr ''x'')) =
       Inr (PDict [(''id'', PStr ''x''), (''text'', PStr ''hi''), (''metadata'', PNone)])
   \<and> update alice_db (PStr ''a'') (PStr ''hi'') (PDict []) =
       update alice_db (PStr ''a'') (PStr ''hi'') PNone
   \<and> off_contract_upsert alice_db = lenient_upsert
   \<and> fst (get (snd (update alice_db (PStr ''a'') (PStr ''hi'') (PDict []))) (PStr ''a'')) =
       Inr (PDict [(''id'', PStr ''a''), (''text'', PStr ''hi''), (''metadata'', PNone)])"
proof -
  have e: "collection empty_db = Some \<lparr>c_entries = Map.empty, c_requests = []\<rparr>"
    "embedding_model empty_db (PStr ''hi'') = Inr (PList [PFloat 2])"
    by (simp_all add: empty_db_def)
  have a: "collection alice_db = Some \<lparr>c_entries = [PStr ''a'' \<mapsto> alice_entry], c_requests = []\<rparr>"
    "off_contract_upsert alice_db = lenient_upsert"
    by (simp_all add: alice_db_def)
  show ?thesis
    using e a
      falsy_metadata_is_absent [of "PDict []" "PStr ''hi''" "PStr ''x''" empty_db
         "PList [PFloat 2]" "\<lparr>c_entries = Map.empty, c_requests = []\<rparr>" alice_entry]
      falsy_metadata_is_absent [of "PDict []" "PStr ''hi''" "PStr ''a''" alice_db
         "PList [PFloat 2]" "\<lparr>c_entries = [PStr ''a'' \<mapsto> alice_entry], c_requests = []\<rparr>" alice_entry]
    by (simp add: alice_entry_def) metis
qed

text \<open>
  C10 as stated fails in two ways. With an empty list as metadata and lists as text and
  id, \<open>insert(["x"], [], ["k"])\<close> is dispatched to \<open>batch_insert\<close> and raises the
  ValidationError for the number of metadatas, whereas with metadata absent the same
  call takes the single-record path and returns its id. And over a store that refuses
  the upsert of \<open>update\<close>, \<open>update("a", "hi", {})\<close> fails and \<open>get("a")\<close> still returns the
  prior metadata, not an absent one.
\<close>

theorem falsy_metadata_counterexample:
  "\<not> py_truthy (PList [])
   \<and> fst (insert_text empty_db (PList [PStr ''x'']) (PList []) (PList [PStr ''k''])) =
       Inl (ValueError MetadatasCount)
   \<and> fst (insert_text empty_db (PList [PStr ''x'']) PNone (PList [PStr ''k''])) =
       Inr (PList [PStr ''k''])
   \<and> \<not> py_truthy (PDict [])
   \<and> fst (update strict_alice_db (PStr ''a'') (PStr ''hi'') (PDict [])) = Inl StoreFailure
   \<and> fst (get (snd (update strict_alice_db (PStr ''a'') (PStr ''hi'') (PDict []))) (PStr ''a'')) =
       Inr (PDict [(''id'', PStr ''a''), (''text'', PStr ''hello''),
                   (''metadata'', PDict [(''name'', PStr ''Alice'')])])"
proof -
  have b: "fst (insert_text empty_db (PList [PStr ''x'']) (PList []) (PList [PStr ''k''])) =
       Inl (ValueError MetadatasCount)"
    by (simp add: insert_text_def batch_insert_def resolve_ids_def resolve_metadatas_def
          embed_texts_def empty_db_def)
  have s: "fst (insert_text empty_db (PList [PStr ''x'']) PNone (PList [PStr ''k''])) =
       Inr (PList [PStr ''k''])"
    using insert_single [of "PList [PStr ''x'']" PNone "PList [PStr ''k'']" empty_db
        "PList [PList [PFloat 1] ]" "\<lparr>c_entries = Map.empty, c_requests = []\<rparr>"]
    by (simp add: empty_db_def)
  have u: "update strict_alice_db (PStr ''a'') (PStr ''hi'') (PDict []) =
     (Inl StoreFailure,
      strict_alice_db\<lparr>collection := Some
             \<lparr>c_entries = [PStr ''a'' \<mapsto> alice_entry],
              c_requests =
                 [GetReq [PStr ''a''],
                  UpsertReq \<lparr>u_ids = PList [PStr ''a''],
                             u_embeddings = PNone, u_documents = PList [PStr ''hi''],
                             u_metadatas = PNone\<rparr>]\<rparr>\<rparr>)"
    using update_refused [of "PStr ''a''" strict_alice_db
        "\<lparr>c_entries = [PStr ''a'' \<mapsto> alice_entry], c_requests = []\<rparr>" alice_entry
        "PStr ''hi''" "PDict []"]
    by (simp add: strict_alice_db_def)
  show ?thesis
    by (simp add: b s u get_active alice_entry_def)
qed

end
